theory Spec2Isabelle
  imports Main "HOL-Library.Sublist"
begin

section \<open>Strings, values and documents\<close>

text \<open>
  A JavaScript string is represented by its UTF-8 bytes. The code compares strings,
  cuts them at commas, looks for one string inside another and trims white space; none
  of these depends on how a character is encoded.

  The values a change event carries. A number is given by the string that
  \<^verbatim>\<open>Number.prototype.toString\<close> prints for it, and a value of any other kind (a date,
  or an object of the driver such as a 64-bit integer, a decimal or binary data) by the
  string its own \<^verbatim>\<open>toString\<close> method returns; only an object id is kept apart, given
  by its hexadecimal string. A document is an association list of its own properties;
  none of its values is a function.
\<close>

datatype bson =
    BNull
  | BBool bool
  | BNum string
  | BStr string
  | BObjectId string
  | BOther string
  | BDoc "(string \<times> bson) list"
  | BArr "bson list"

type_synonym document = "(string \<times> bson) list"

section \<open>Errors\<close>

text \<open>
  The exceptions the code raises or receives: an error of the MongoDB driver (with its
  optional \<^verbatim>\<open>message\<close> and \<^verbatim>\<open>codeName\<close>), the host's \<^verbatim>\<open>NodeApiError\<close> with its
  message, the \<^verbatim>\<open>RangeError\<close> of \<^verbatim>\<open>Date.prototype.toISOString\<close>, and the
  \<^verbatim>\<open>TypeError\<close> of calling what is not a function.
  \<^verbatim>\<open>new NodeApiError(node, {message: m})\<close> is the error \<open>NodeApiError m\<close>: its
  \<^verbatim>\<open>message\<close> property reads \<open>m\<close>.
\<close>

datatype js_error =
    DriverError "string option" "string option"
  | NodeApiError string
  | RangeError string
  | TypeError string

fun error_message :: "js_error \<Rightarrow> string option" where
  "error_message (DriverError m c) = m"
| "error_message (NodeApiError m) = Some m"
| "error_message (RangeError m) = Some m"
| "error_message (TypeError m) = Some m"

fun error_codeName :: "js_error \<Rightarrow> string option" where
  "error_codeName (DriverError m c) = c"
| "error_codeName _ = None"

fun error_name :: "js_error \<Rightarrow> string" where
  "error_name (DriverError m c) = ''MongoServerError''"
| "error_name (NodeApiError m) = ''NodeApiError''"
| "error_name (RangeError m) = ''RangeError''"
| "error_name (TypeError m) = ''TypeError''"

section \<open>Property access and conversion to strings\<close>

text \<open>
  \<^verbatim>\<open>obj.hasOwnProperty(k)\<close>, called on the document itself: the method is looked up
  on the document first, so a document with an own property named
  \<^verbatim>\<open>hasOwnProperty\<close> hides the inherited method, and calling its value, which is not
  a function, raises a \<^verbatim>\<open>TypeError\<close>.
\<close>

definition hasOwnProperty :: "document \<Rightarrow> string \<Rightarrow> js_error + bool" where
  "hasOwnProperty d k =
     (if map_of d ''hasOwnProperty'' \<noteq> None
      then Inl (TypeError ''updatedFields.hasOwnProperty is not a function'')
      else Inr (map_of d k \<noteq> None))"

text \<open>\<^verbatim>\<open>v === s\<close> where \<open>s\<close> is a string: true only for a string of the same characters.\<close>

fun strict_equals :: "bson \<Rightarrow> string \<Rightarrow> bool" where
  "strict_equals (BStr t) s = (t = s)"
| "strict_equals _ s = False"

fun join_comma :: "string list \<Rightarrow> string" where
  "join_comma [] = []"
| "join_comma [s] = s"
| "join_comma (s # t # ss) = s @ CHR '','' # join_comma (t # ss)"

text \<open>
  The string of an array element inside \<^verbatim>\<open>Array.prototype.join\<close>: null prints as the
  empty string, a nested array as its own join, and a document as
  \<^verbatim>\<open>[object Object]\<close> unless an own property \<^verbatim>\<open>toString\<close> hides the inherited
  method, in which case the conversion raises a \<^verbatim>\<open>TypeError\<close>.
\<close>

fun element_string :: "bson \<Rightarrow> js_error + string"
  and array_strings :: "bson list \<Rightarrow> js_error + string list" where
  "element_string BNull = Inr []"
| "element_string (BBool b) = Inr (if b then ''true'' else ''false'')"
| "element_string (BNum s) = Inr s"
| "element_string (BStr s) = Inr s"
| "element_string (BObjectId h) = Inr h"
| "element_string (BOther s) = Inr s"
| "element_string (BDoc kvs) =
     (if map_of kvs ''toString'' \<noteq> None
      then Inl (TypeError ''Cannot convert object to primitive value'')
      else Inr ''[object Object]'')"
| "element_string (BArr xs) =
     (case array_strings xs of Inl e \<Rightarrow> Inl e | Inr ss \<Rightarrow> Inr (join_comma ss))"
| "array_strings [] = Inr []"
| "array_strings (x # xs) =
     (case element_string x of
        Inl e \<Rightarrow> Inl e
      | Inr s \<Rightarrow> (case array_strings xs of Inl e \<Rightarrow> Inl e | Inr ss \<Rightarrow> Inr (s # ss)))"

text \<open>
  The method call \<^verbatim>\<open>v.toString()\<close>. On null it raises; on a document with an own
  property \<^verbatim>\<open>toString\<close> the value called is not a function and it raises; on an
  array it is the join of the elements.
\<close>

definition js_toString :: "bson \<Rightarrow> js_error + string" where
  "js_toString v =
     (case v of
        BNull \<Rightarrow> Inl (TypeError ''Cannot read properties of null'')
      | BDoc kvs \<Rightarrow>
          (if map_of kvs ''toString'' \<noteq> None
           then Inl (TypeError ''toString is not a function'')
           else Inr ''[object Object]'')
      | _ \<Rightarrow> element_string v)"

section \<open>Change events and the normalized output\<close>

text \<open>
  A \<^verbatim>\<open>Date\<close> object holds either a finite time value (milliseconds since the epoch) or
  NaN, the invalid date. \<^verbatim>\<open>toISOString\<close> raises a \<^verbatim>\<open>RangeError\<close> on the invalid date;
  the rendering of a finite time value is the parameter \<open>render\<close>.
\<close>

datatype js_date = TimeValue int | InvalidDate

fun toISOString :: "(int \<Rightarrow> string) \<Rightarrow> js_date \<Rightarrow> js_error + string" where
  "toISOString render (TimeValue t) = Inr (render t)"
| "toISOString render InvalidDate = Inl (RangeError ''Invalid time value'')"

record namespace =
  db :: "string option"
  coll :: "string option"

record update_description =
  updatedFields :: "document option"
  removedFields :: "string list option"

text \<open>
  The raw event, as the handler reads it: one object whose properties beyond
  \<^verbatim>\<open>operationType\<close> may each be absent.
\<close>

record change_event =
  operationType :: string
  wallTime :: "js_date option"
  ns :: "namespace option"
  documentKey :: "document option"
  fullDocument :: "document option"
  updateDescription :: "update_description option"
  to :: "namespace option"

record normalized_output =
  operation :: string
  timestamp :: string
  database :: string
  collection :: string
  documentId :: "string option"
  document :: "document option"
  modifiedFields :: "document option"
  removedFields_out :: "string list option"
  documentAfterUpdate :: "document option"
  documentAfterReplace :: "document option"
  newCollection :: "string option"
  details :: "change_event option"

text \<open>\<^verbatim>\<open>s || d\<close> on an optional string: absent and empty strings are falsy.\<close>

definition or_string :: "string option \<Rightarrow> string \<Rightarrow> string" where
  "or_string v d = (case v of None \<Rightarrow> d | Some s \<Rightarrow> if s = [] then d else s)"

text \<open>\<^verbatim>\<open>change.updateDescription?.updatedFields || {}\<close>\<close>

definition updatedFields_of :: "change_event \<Rightarrow> document" where
  "updatedFields_of change =
     (case Option.bind (updateDescription change) updatedFields of
        None \<Rightarrow> [] | Some d \<Rightarrow> d)"

text \<open>
  \<^verbatim>\<open>('documentKey' in change) ? change.documentKey?._id?.toString() : undefined\<close>.
  The two \<^verbatim>\<open>?.\<close> stop at an absent document key and at an absent or null
  \<^verbatim>\<open>_id\<close>; on any other \<^verbatim>\<open>_id\<close> the method is called and may raise.
\<close>

definition documentId_of :: "change_event \<Rightarrow> js_error + string option" where
  "documentId_of change =
     (case documentKey change of
        None \<Rightarrow> Inr None
      | Some k \<Rightarrow>
          (case map_of k ''_id'' of
             None \<Rightarrow> Inr None
           | Some BNull \<Rightarrow> Inr None
           | Some v \<Rightarrow> (case js_toString v of Inl e \<Rightarrow> Inl e | Inr s \<Rightarrow> Inr (Some s))))"

text \<open>
  \<^verbatim>\<open>formatChangeOutput(change)\<close>. \<open>now\<close> is the value of \<^verbatim>\<open>Date.now()\<close>;
  \<open>database'\<close> and \<open>collectionName\<close> are the node parameters
  \<^verbatim>\<open>database\<close> and \<^verbatim>\<open>collectionName\<close> the closure captures.
  The properties of the base object are evaluated in their order, so the timestamp
  may raise first and the document id after it; then the switch on the operation type
  adds the operation-specific properties.
\<close>

definition base_output ::
  "string \<Rightarrow> string \<Rightarrow> string \<Rightarrow> string option \<Rightarrow> change_event \<Rightarrow> normalized_output" where
  "base_output ts database' collectionName docId change =
     \<lparr> operation = operationType change,
       timestamp = ts,
       database = or_string (Option.bind (ns change) db) database',
       collection = or_string (Option.bind (ns change) coll) collectionName,
       documentId = docId,
       document = None,
       modifiedFields = None,
       removedFields_out = None,
       documentAfterUpdate = None,
       documentAfterReplace = None,
       newCollection = None,
       details = None \<rparr>"

definition add_operation_data :: "change_event \<Rightarrow> normalized_output \<Rightarrow> normalized_output" where
  "add_operation_data change output =
     (if operationType change = ''insert'' then
        output\<lparr>document := Some (case fullDocument change of None \<Rightarrow> [] | Some d \<Rightarrow> d)\<rparr>
      else if operationType change = ''update'' then
        output\<lparr>modifiedFields := Some (updatedFields_of change),
               removedFields_out :=
                 Some (case Option.bind (updateDescription change) removedFields of
                         None \<Rightarrow> [] | Some r \<Rightarrow> r),
               documentAfterUpdate := fullDocument change\<rparr>
      else if operationType change = ''replace'' then
        output\<lparr>documentAfterReplace :=
                 Some (case fullDocument change of None \<Rightarrow> [] | Some d \<Rightarrow> d)\<rparr>
      else if operationType change = ''delete'' then output
      else if operationType change = ''drop'' \<or> operationType change = ''rename'' then
        (if operationType change = ''rename''
         then output\<lparr>newCollection := Option.bind (to change) coll\<rparr>
         else output)
      else output\<lparr>details := Some change\<rparr>)"

definition formatChangeOutput ::
  "(int \<Rightarrow> string) \<Rightarrow> int \<Rightarrow> string \<Rightarrow> string \<Rightarrow> change_event
     \<Rightarrow> js_error + normalized_output" where
  "formatChangeOutput render now database' collectionName change =
     (case toISOString render
             (case wallTime change of None \<Rightarrow> TimeValue now | Some d \<Rightarrow> d) of
        Inl e \<Rightarrow> Inl e
      | Inr ts \<Rightarrow>
          (case documentId_of change of
             Inl e \<Rightarrow> Inl e
           | Inr docId \<Rightarrow>
               Inr (add_operation_data change
                      (base_output ts database' collectionName docId change))))"

section \<open>The change handler and its client-side filters\<close>

record filter_condition =
  field :: string
  operator :: string
  fvalue :: string

text \<open>The callback of \<^verbatim>\<open>filters.every\<close>: it returns a truth value or raises.\<close>

definition condition_met :: "document \<Rightarrow> filter_condition \<Rightarrow> js_error + bool" where
  "condition_met updFields f =
     (case hasOwnProperty updFields (field f) of
        Inl e \<Rightarrow> Inl e
      | Inr False \<Rightarrow> Inr False
      | Inr True \<Rightarrow>
          (case map_of updFields (field f) of
             None \<Rightarrow> Inr False
           | Some actualValue \<Rightarrow>
               (if operator f = ''equal'' then Inr (strict_equals actualValue (fvalue f))
                else if operator f = ''notEqual''
                then Inr (\<not> strict_equals actualValue (fvalue f))
                else Inr False)))"

text \<open>
  \<^verbatim>\<open>filters.every(callback)\<close>: the callback runs on the filters in their order, up to
  the first that is not met; what the callback raises leaves \<^verbatim>\<open>every\<close>.
\<close>

fun every_condition :: "document \<Rightarrow> filter_condition list \<Rightarrow> js_error + bool" where
  "every_condition updFields [] = Inr True"
| "every_condition updFields (f # fs) =
     (case condition_met updFields f of
        Inl e \<Rightarrow> Inl e
      | Inr False \<Rightarrow> Inr False
      | Inr True \<Rightarrow> every_condition updFields fs)"

text \<open>
  The listener registered with \<^verbatim>\<open>changeStream.on('change', ...)\<close>. Its result is the
  list of records passed to \<^verbatim>\<open>this.emit\<close>, or the exception that leaves the listener:
  the listener has no \<^verbatim>\<open>try\<close>, so what \<^verbatim>\<open>formatChangeOutput\<close> or the filters raise
  is raised to the caller of the listener.
\<close>

definition on_change ::
  "(int \<Rightarrow> string) \<Rightarrow> int \<Rightarrow> string \<Rightarrow> string \<Rightarrow> filter_condition list \<Rightarrow> change_event
     \<Rightarrow> js_error + normalized_output list" where
  "on_change render now database' collectionName filters change =
     (case formatChangeOutput render now database' collectionName change of
        Inl e \<Rightarrow> Inl e
      | Inr formattedOutput \<Rightarrow>
          (if length filters > 0 \<and> operationType change = ''update'' then
             (case every_condition (updatedFields_of change) filters of
                Inl e \<Rightarrow> Inl e
              | Inr allConditionsMet \<Rightarrow>
                  if allConditionsMet then Inr [formattedOutput] else Inr [])
           else Inr [formattedOutput]))"

section \<open>The server-side pipeline\<close>

text \<open>
  The aggregation stages the code builds, as syntax: each \<^verbatim>\<open>$match\<close> holds a query
  over dotted paths of the event.
\<close>

datatype match_expr =
    FieldIn string "string list"
  | FieldNe string string
  | FieldEq string string
  | FieldExists string
  | Or "match_expr list"
  | And "match_expr list"

datatype stage = Match match_expr

text \<open>\<^verbatim>\<open>fields.split(',')\<close>: the pieces between commas; the empty string gives one empty piece.\<close>

fun split_comma :: "string \<Rightarrow> string list" where
  "split_comma [] = [[]]"
| "split_comma (c # cs) =
     (if c = CHR '','' then [] # split_comma cs
      else (case split_comma cs of
              [] \<Rightarrow> [[c]]
            | w # ws \<Rightarrow> (c # w) # ws))"

text \<open>
  \<^verbatim>\<open>field.trim()\<close> removes the white space and line terminators of the language from
  both ends. In UTF-8 these are the six ASCII characters tab, line feed, vertical tab,
  form feed, carriage return and space, the no-break space U+00A0, U+1680, U+2000 to
  U+200A, the line and paragraph separators U+2028 and U+2029, U+202F, U+205F, U+3000
  and the byte order mark U+FEFF.
\<close>

definition white_space :: "string list" where
  "white_space =
     [[CHR 0x09], [CHR 0x0A], [CHR 0x0B], [CHR 0x0C], [CHR 0x0D], [CHR 0x20],
      [CHR 0xC2, CHR 0xA0],
      [CHR 0xE1, CHR 0x9A, CHR 0x80],
      [CHR 0xE2, CHR 0x80, CHR 0x80], [CHR 0xE2, CHR 0x80, CHR 0x81],
      [CHR 0xE2, CHR 0x80, CHR 0x82], [CHR 0xE2, CHR 0x80, CHR 0x83],
      [CHR 0xE2, CHR 0x80, CHR 0x84], [CHR 0xE2, CHR 0x80, CHR 0x85],
      [CHR 0xE2, CHR 0x80, CHR 0x86], [CHR 0xE2, CHR 0x80, CHR 0x87],
      [CHR 0xE2, CHR 0x80, CHR 0x88], [CHR 0xE2, CHR 0x80, CHR 0x89],
      [CHR 0xE2, CHR 0x80, CHR 0x8A],
      [CHR 0xE2, CHR 0x80, CHR 0xA8], [CHR 0xE2, CHR 0x80, CHR 0xA9],
      [CHR 0xE2, CHR 0x80, CHR 0xAF],
      [CHR 0xE2, CHR 0x81, CHR 0x9F],
      [CHR 0xE3, CHR 0x80, CHR 0x80],
      [CHR 0xEF, CHR 0xBB, CHR 0xBF]]"

text \<open>The number of bytes of the white-space character \<open>s\<close> starts with, or 0.\<close>

definition leading_space :: "string list \<Rightarrow> string \<Rightarrow> nat" where
  "leading_space ws s = (case find (\<lambda>w. prefix w s) ws of None \<Rightarrow> 0 | Some w \<Rightarrow> length w)"

fun strip_leading :: "string list \<Rightarrow> string \<Rightarrow> string" where
  "strip_leading ws s =
     (if s \<noteq> [] \<and> 0 < leading_space ws s
      then strip_leading ws (drop (leading_space ws s) s) else s)"

declare strip_leading.simps [simp del]

text \<open>The end of the string is trimmed on the reversed bytes.\<close>

definition trim :: "string \<Rightarrow> string" where
  "trim s = rev (strip_leading (map rev white_space) (rev (strip_leading white_space s)))"

definition fieldList_of :: "string \<Rightarrow> string list" where
  "fieldList_of fields' = map trim (split_comma fields')"

definition operation_stage :: "string list \<Rightarrow> stage" where
  "operation_stage operationTypes = Match (FieldIn ''operationType'' operationTypes)"

definition field_stage :: "string \<Rightarrow> stage" where
  "field_stage fields' =
     Match (Or [
       FieldNe ''operationType'' ''update'',
       And [
         FieldEq ''operationType'' ''update'',
         FieldExists ''updateDescription.updatedFields'',
         Or (map (\<lambda>f. FieldExists (''updateDescription.updatedFields.'' @ f))
               (fieldList_of fields'))]])"

text \<open>The two \<^verbatim>\<open>pipeline.push\<close> calls of \<^verbatim>\<open>trigger\<close>, in their order.\<close>

definition buildPipeline :: "string \<Rightarrow> string list \<Rightarrow> stage list" where
  "buildPipeline fields' operationTypes =
     (if length operationTypes > 0 \<and> length operationTypes < 6
      then [operation_stage operationTypes] else [])
     @ (if fields' \<noteq> ''*'' \<and> ''update'' \<in> set operationTypes
        then [field_stage fields'] else [])"

subsection \<open>What a stage lets through\<close>

text \<open>
  The stages are evaluated by the database server. Their meaning here follows MongoDB's
  query language: a path is cut at its dots and followed through nested documents;
  \<^verbatim>\<open>$exists\<close> asks whether the path leads to a value, \<^verbatim>\<open>$in\<close>, \<^verbatim>\<open>$ne\<close> and the plain
  equality compare the value there with strings. The event is seen as the document the
  server matches against, with the two properties the stages of this node read:
  \<^verbatim>\<open>operationType\<close> and \<^verbatim>\<open>updateDescription\<close>.
\<close>

fun split_dot :: "string \<Rightarrow> string list" where
  "split_dot [] = [[]]"
| "split_dot (c # cs) =
     (if c = CHR ''.'' then [] # split_dot cs
      else (case split_dot cs of
              [] \<Rightarrow> [[c]]
            | w # ws \<Rightarrow> (c # w) # ws))"

fun lookup_path :: "string list \<Rightarrow> bson \<Rightarrow> bson option" where
  "lookup_path [] v = Some v"
| "lookup_path (k # ks) (BDoc kvs) =
     (case map_of kvs k of None \<Rightarrow> None | Some v \<Rightarrow> lookup_path ks v)"
| "lookup_path (k # ks) _ = None"

definition event_document :: "change_event \<Rightarrow> bson" where
  "event_document change =
     BDoc ([(''operationType'', BStr (operationType change))]
       @ (case updateDescription change of
            None \<Rightarrow> []
          | Some u \<Rightarrow>
              [(''updateDescription'',
                BDoc ((case updatedFields u of
                         None \<Rightarrow> [] | Some d \<Rightarrow> [(''updatedFields'', BDoc d)])
                    @ (case removedFields u of
                         None \<Rightarrow> [] | Some r \<Rightarrow> [(''removedFields'', BArr (map BStr r))])))]))"

fun eval_expr :: "match_expr \<Rightarrow> bson \<Rightarrow> bool" where
  "eval_expr (FieldIn p vs) e =
     (case lookup_path (split_dot p) e of Some (BStr s) \<Rightarrow> s \<in> set vs | _ \<Rightarrow> False)"
| "eval_expr (FieldNe p v) e = (lookup_path (split_dot p) e \<noteq> Some (BStr v))"
| "eval_expr (FieldEq p v) e = (lookup_path (split_dot p) e = Some (BStr v))"
| "eval_expr (FieldExists p) e = (lookup_path (split_dot p) e \<noteq> None)"
| "eval_expr (Or qs) e = list_ex (\<lambda>q. eval_expr q e) qs"
| "eval_expr (And qs) e = list_all (\<lambda>q. eval_expr q e) qs"

fun stage_passes :: "stage \<Rightarrow> change_event \<Rightarrow> bool" where
  "stage_passes (Match q) change = eval_expr q (event_document change)"

section \<open>Start-up: connection, validation, subscription\<close>

text \<open>\<^verbatim>\<open>s.includes(t)\<close>: \<open>t\<close> occurs in \<open>s\<close> as a contiguous piece.\<close>

fun str_includes :: "string \<Rightarrow> string \<Rightarrow> bool" where
  "str_includes [] t = (t = [])"
| "str_includes (c # cs) t = (prefix t (c # cs) \<or> str_includes cs t)"

text \<open>\<^verbatim>\<open>error.message?.includes("not authorized") || error.codeName === "Unauthorized"\<close>\<close>

definition is_unauthorized :: "js_error \<Rightarrow> bool" where
  "is_unauthorized error =
     ((case error_message error of None \<Rightarrow> False | Some m \<Rightarrow> str_includes m ''not authorized'')
      \<or> error_codeName error = Some ''Unauthorized'')"

text \<open>
  \<^verbatim>\<open>new NodeApiError(node, error, {message})\<close>. The constructor belongs to the host's
  library; releases differ on an \<open>error\<close> that is a \<^verbatim>\<open>NodeApiError\<close> already: some
  return it as it is, others build a new error with the new message. \<open>passthrough\<close>
  selects the first behaviour.
\<close>

definition wrap_error :: "bool \<Rightarrow> js_error \<Rightarrow> string \<Rightarrow> js_error" where
  "wrap_error passthrough error m =
     (case error of
        NodeApiError m0 \<Rightarrow> if passthrough then error else NodeApiError m
      | _ \<Rightarrow> NodeApiError m)"

definition quoted :: "string \<Rightarrow> string" where
  "quoted s = CHR 0x22 # s @ [CHR 0x22]"

text \<open>A template literal prints an absent \<^verbatim>\<open>error.message\<close> as \<^verbatim>\<open>undefined\<close>.\<close>

definition message_text :: "js_error \<Rightarrow> string" where
  "message_text error = (case error_message error of None \<Rightarrow> ''undefined'' | Some m \<Rightarrow> m)"

text \<open>
  What the outside world answers: the credentials' connection string, and for each
  driver call either success or the error it raises. \<^verbatim>\<open>listCollections\<close> answers with
  the names that matched.
\<close>

record mongo_env =
  credentials :: "string option"
  connect_result :: "js_error option"
  ping_result :: "js_error option"
  listCollections_result :: "js_error + string list"

record node_parameters =
  param_database :: string
  param_collection :: string
  param_fields :: string
  param_operationTypes :: "string list"
  param_filters :: "filter_condition list"

datatype driver_call =
    Connect string
  | Ping string
  | ListCollections string string
  | Watch string string "stage list"
  | CloseStream
  | CloseClient

text \<open>The inner \<^verbatim>\<open>try\<close> around \<^verbatim>\<open>db.command({ ping: 1 })\<close>; the result is the error thrown, if any.\<close>

definition verify_database :: "mongo_env \<Rightarrow> string \<Rightarrow> js_error option" where
  "verify_database env database' =
     (case ping_result env of
        None \<Rightarrow> None
      | Some error \<Rightarrow>
          Some (if is_unauthorized error
                then NodeApiError (''Not authorized to access database '' @ quoted database'
                       @ ''. Check if the database exists and your credentials have sufficient permissions.'')
                else NodeApiError (''Database '' @ quoted database'
                       @ '' could not be accessed: '' @ message_text error)))"

text \<open>
  The inner \<^verbatim>\<open>try\<close> around \<^verbatim>\<open>listCollections\<close>. The error for an empty answer is thrown
  inside the \<^verbatim>\<open>try\<close> block, so the \<^verbatim>\<open>catch\<close> of the same statement receives it like
  an error of the driver.
\<close>

definition verify_collection :: "bool \<Rightarrow> mongo_env \<Rightarrow> string \<Rightarrow> string \<Rightarrow> js_error option" where
  "verify_collection passthrough env database' collectionName =
     (let thrown =
            (case listCollections_result env of
               Inl error \<Rightarrow> Some error
             | Inr collections \<Rightarrow>
                 if length collections = 0
                 then Some (NodeApiError (''Collection '' @ quoted collectionName
                              @ '' does not exist in database '' @ quoted database' @ ''.''))
                 else None)
      in case thrown of
           None \<Rightarrow> None
         | Some error \<Rightarrow>
             Some (if is_unauthorized error
                   then NodeApiError (''Not authorized to list collections in '' @ quoted database'
                          @ ''. Check if your credentials have sufficient permissions.'')
                   else wrap_error passthrough error
                          (''Failed to verify if collection '' @ quoted collectionName @ '' exists.'')))"

text \<open>The outer \<^verbatim>\<open>try\<close>: a \<^verbatim>\<open>NodeApiError\<close> passes, anything else is wrapped.\<close>

definition validate :: "bool \<Rightarrow> mongo_env \<Rightarrow> string \<Rightarrow> string \<Rightarrow> js_error option" where
  "validate passthrough env database' collectionName =
     (let thrown =
            (case verify_database env database' of
               Some error \<Rightarrow> Some error
             | None \<Rightarrow> verify_collection passthrough env database' collectionName)
      in case thrown of
           None \<Rightarrow> None
         | Some error \<Rightarrow>
             Some (if error_name error = ''NodeApiError'' then error
                   else wrap_error passthrough error
                          ''Failed to verify database or collection existence.''))"

definition validate_calls :: "mongo_env \<Rightarrow> string \<Rightarrow> string \<Rightarrow> driver_call list" where
  "validate_calls env database' collectionName =
     Ping database'
     # (case ping_result env of
          None \<Rightarrow> [ListCollections database' collectionName]
        | Some error \<Rightarrow> [])"

text \<open>
  \<^verbatim>\<open>trigger\<close>, up to its \<^verbatim>\<open>return\<close>: the pipeline the change stream was opened with, or
  the error thrown; and the driver calls made on the way, in their order. A
  subscription exists exactly when a \<open>Watch\<close> call was made.
\<close>

record trigger_response =
  stream_pipeline :: "stage list"

definition trigger ::
  "bool \<Rightarrow> mongo_env \<Rightarrow> node_parameters
     \<Rightarrow> (js_error + trigger_response) \<times> driver_call list" where
  "trigger passthrough env params =
     (case credentials env of
        None \<Rightarrow> (Inl (NodeApiError ''No credentials were returned!''), [])
      | Some uri \<Rightarrow>
          (case connect_result env of
             Some error \<Rightarrow>
               (Inl (wrap_error passthrough error
                  ''Failed to connect to MongoDB. Please check your credentials and connection settings.''),
                [Connect uri])
           | None \<Rightarrow>
               (case validate passthrough env (param_database params) (param_collection params) of
                  Some error \<Rightarrow>
                    (Inl error,
                     Connect uri
                     # validate_calls env (param_database params) (param_collection params))
                | None \<Rightarrow>
                    (let pipeline = buildPipeline (param_fields params) (param_operationTypes params)
                     in (Inr \<lparr> stream_pipeline = pipeline \<rparr>,
                         Connect uri
                         # validate_calls env (param_database params) (param_collection params)
                         @ [Watch (param_database params) (param_collection params) pipeline])))))"

definition subscription_created :: "driver_call list \<Rightarrow> bool" where
  "subscription_created calls = list_ex (\<lambda>c. case c of Watch d c p \<Rightarrow> True | _ \<Rightarrow> False) calls"

section \<open>Shutdown\<close>

text \<open>
  \<^verbatim>\<open>closeFunction\<close>: \<^verbatim>\<open>await changeStream.close(); await client.close();\<close>. The two
  close operations are the driver's; each is given as the error it raises, if any, in
  the current state of the two handles. A rejected first \<^verbatim>\<open>await\<close> leaves the function.
\<close>

record handles =
  stream_closed :: bool
  client_closed :: bool

definition closeFunction ::
  "(handles \<Rightarrow> js_error option) \<Rightarrow> (handles \<Rightarrow> js_error option) \<Rightarrow> handles
     \<Rightarrow> js_error option \<times> handles \<times> driver_call list" where
  "closeFunction stream_close client_close h =
     (case stream_close h of
        Some error \<Rightarrow> (Some error, h, [CloseStream])
      | None \<Rightarrow>
          (let h1 = h\<lparr>stream_closed := True\<rparr>
           in case client_close h1 of
                Some error \<Rightarrow> (Some error, h1, [CloseStream, CloseClient])
              | None \<Rightarrow> (None, h1\<lparr>client_closed := True\<rparr>, [CloseStream, CloseClient])))"

section \<open>Sample inputs\<close>

text \<open>The six operation types the node offers, and concrete events and filters on which
  the theorems below are run.\<close>

definition supported_operations :: "string list" where
  "supported_operations = [''insert'', ''update'', ''replace'', ''delete'', ''drop'', ''rename'']"

definition sample_render :: "int \<Rightarrow> string" where
  "sample_render t = ''1970-01-01T00:00:00.000Z''"

definition sample_event :: "string \<Rightarrow> js_date option \<Rightarrow> document \<Rightarrow> change_event" where
  "sample_event op wt changed =
     \<lparr> operationType = op,
       wallTime = wt,
       ns = Some \<lparr> db = Some ''d'', coll = Some ''c'' \<rparr>,
       documentKey = Some [(''_id'', BStr ''1'')],
       fullDocument = None,
       updateDescription = Some \<lparr> updatedFields = Some changed, removedFields = Some [] \<rparr>,
       to = None \<rparr>"

definition sample_filter :: "string \<Rightarrow> filter_condition" where
  "sample_filter op = \<lparr> field = ''status'', operator = op, fvalue = ''done'' \<rparr>"


definition sample_insert :: "bson \<Rightarrow> change_event" where
  "sample_insert docId =
     \<lparr> operationType = ''insert'',
       wallTime = Some (TimeValue 0),
       ns = Some \<lparr> db = Some ''d'', coll = Some ''c'' \<rparr>,
       documentKey = Some [(''_id'', docId)],
       fullDocument = Some [(''_id'', docId), (''status'', BStr ''new'')],
       updateDescription = None,
       to = None \<rparr>"

definition sample_nested :: change_event where
  "sample_nested = sample_event ''update'' (Some (TimeValue 0)) [(''a.b'', BNum ''1'')]"

definition sample_env :: "string list \<Rightarrow> mongo_env" where
  "sample_env matching =
     \<lparr> credentials = Some ''mongodb://localhost:27017'',
       connect_result = None,
       ping_result = None,
       listCollections_result = Inr matching \<rparr>"

definition sample_params :: "string \<Rightarrow> string list \<Rightarrow> node_parameters" where
  "sample_params collectionName operationTypes =
     \<lparr> param_database = ''d'',
       param_collection = collectionName,
       param_fields = ''*'',
       param_operationTypes = operationTypes,
       param_filters = [] \<rparr>"

definition sample_handles :: handles where
  "sample_handles = \<lparr> stream_closed = False, client_closed = False \<rparr>"

text \<open>A driver whose \<^verbatim>\<open>changeStream.close()\<close> rejects while the stream is open, and one
  whose close operations never reject.\<close>

definition failing_close :: "handles \<Rightarrow> js_error option" where
  "failing_close h =
     (if stream_closed h then None
      else Some (DriverError (Some ''connection lost'') None))"

definition quiet_close :: "handles \<Rightarrow> js_error option" where
  "quiet_close h = None"

section \<open>The change handler: basic facts\<close>

lemma strict_equals_iff: "strict_equals v s \<longleftrightarrow> v = BStr s"
  by (cases v) auto

lemma condition_met_unshadowed:
  assumes "map_of d ''hasOwnProperty'' = None"
  shows "condition_met d f =
           Inr (\<exists>v. map_of d (field f) = Some v \<and>
                  ((operator f = ''equal'' \<and> v = BStr (fvalue f)) \<or>
                   (operator f = ''notEqual'' \<and> v \<noteq> BStr (fvalue f))))"
  using assms
  by (auto simp: condition_met_def hasOwnProperty_def strict_equals_iff split: option.splits)

lemma condition_met_shadowed:
  assumes "map_of d ''hasOwnProperty'' \<noteq> None"
  shows "condition_met d f = Inl (TypeError ''updatedFields.hasOwnProperty is not a function'')"
  using assms by (simp add: condition_met_def hasOwnProperty_def)

lemma every_condition_unshadowed:
  assumes "map_of d ''hasOwnProperty'' = None"
  shows "every_condition d fs =
           Inr (\<forall>f \<in> set fs. \<exists>v. map_of d (field f) = Some v \<and>
                  ((operator f = ''equal'' \<and> v = BStr (fvalue f)) \<or>
                   (operator f = ''notEqual'' \<and> v \<noteq> BStr (fvalue f))))"
  by (induction fs) (auto simp: condition_met_unshadowed [OF assms] split: bool.splits)

lemma every_condition_shadowed:
  assumes "map_of d ''hasOwnProperty'' \<noteq> None" and "fs \<noteq> []"
  shows "every_condition d fs = Inl (TypeError ''updatedFields.hasOwnProperty is not a function'')"
  using assms by (cases fs) (simp_all add: condition_met_shadowed)


lemma formatChangeOutput_Inr:
  assumes "formatChangeOutput render now database' collectionName change = Inr out"
  shows "\<exists>ts docId.
           out = add_operation_data change (base_output ts database' collectionName docId change)
           \<and> documentId_of change = Inr docId
           \<and> (wallTime change = None \<longrightarrow> ts = render now)
           \<and> (\<forall>t. wallTime change = Some (TimeValue t) \<longrightarrow> ts = render t)"
proof (cases "wallTime change")
  case None
  with assms show ?thesis
    by (auto simp: formatChangeOutput_def split: sum.splits)
next
  case (Some d)
  with assms show ?thesis
    by (cases d) (auto simp: formatChangeOutput_def split: sum.splits)
qed

lemma add_operation_data_base [simp]:
  "operation (add_operation_data change out) = operation out"
  "timestamp (add_operation_data change out) = timestamp out"
  "database (add_operation_data change out) = database out"
  "collection (add_operation_data change out) = collection out"
  "documentId (add_operation_data change out) = documentId out"
  by (simp_all add: add_operation_data_def)

lemma on_change_formatted:
  assumes "formatChangeOutput render now database' collectionName change = Inr out"
  shows "on_change render now database' collectionName filters change =
           (if filters \<noteq> [] \<and> operationType change = ''update''
            then (case every_condition (updatedFields_of change) filters of
                    Inl e \<Rightarrow> Inl e
                  | Inr allConditionsMet \<Rightarrow> if allConditionsMet then Inr [out] else Inr [])
            else Inr [out])"
  using assms by (simp add: on_change_def)

lemma on_change_raises:
  assumes "formatChangeOutput render now database' collectionName change = Inl e"
  shows "on_change render now database' collectionName filters change = Inl e"
  using assms by (simp add: on_change_def)

lemma sample_formatted:
  "formatChangeOutput sample_render 0 ''db0'' ''c0'' (sample_event ''update'' (Some (TimeValue 0)) changed) =
     Inr \<lparr> operation = ''update'', timestamp = ''1970-01-01T00:00:00.000Z'',
           database = ''d'', collection = ''c'', documentId = Some ''1'',
           document = None, modifiedFields = Some changed, removedFields_out = Some [],
           documentAfterUpdate = None, documentAfterReplace = None,
           newCollection = None, details = None \<rparr>"
  by (simp add: formatChangeOutput_def sample_event_def sample_render_def base_output_def
      add_operation_data_def or_string_def documentId_of_def js_toString_def updatedFields_of_def)



lemma unknown_operator_not_met:
  assumes "map_of d ''hasOwnProperty'' = None"
    and "operator f \<noteq> ''equal''" and "operator f \<noteq> ''notEqual''"
  shows "condition_met d f = Inr False"
  using assms(2,3) by (simp add: condition_met_unshadowed [OF assms(1)])

lemma on_change_unshadowed:
  assumes "formatChangeOutput render now database' collectionName change = Inr out"
    and "map_of (updatedFields_of change) ''hasOwnProperty'' = None"
  shows "on_change render now database' collectionName filters change =
           Inr (if operationType change = ''update'' \<longrightarrow>
                   (\<forall>f \<in> set filters.
                      \<exists>v. map_of (updatedFields_of change) (field f) = Some v \<and>
                        ((operator f = ''equal'' \<and> v = BStr (fvalue f)) \<or>
                         (operator f = ''notEqual'' \<and> v \<noteq> BStr (fvalue f))))
                then [out] else [])"
  by (auto simp: on_change_formatted [OF assms(1)] every_condition_unshadowed [OF assms(2)])

lemma details_for_unrecognized:
  assumes "formatChangeOutput render now database' collectionName change = Inr out"
  shows "details out =
           (if operationType change \<in> set supported_operations then None else Some change)"
proof -
  from formatChangeOutput_Inr [OF assms] obtain ts docId where
    "out = add_operation_data change (base_output ts database' collectionName docId change)"
    by (elim exE conjE)
  then show ?thesis
    by (simp add: add_operation_data_def base_output_def supported_operations_def)
qed

lemma formatChangeOutput_returns:
  assumes "wallTime change \<noteq> Some InvalidDate"
    and "documentId_of change = Inr docId"
  shows "\<exists>out. formatChangeOutput render now database' collectionName change = Inr out"
proof (cases "wallTime change")
  case None
  with assms(2) show ?thesis by (simp add: formatChangeOutput_def)
next
  case (Some d)
  with assms show ?thesis by (cases d) (simp_all add: formatChangeOutput_def)
qed

section \<open>Client-side filters\<close>

text \<open>
  As long as no changed field is named \<^verbatim>\<open>hasOwnProperty\<close>, the filters are evaluated
  as a conjunction of field tests, an unknown operator failing its test (lemmas
  \<open>on_change_unshadowed\<close> and \<open>unknown_operator_not_met\<close>). A changed field of that
  name hides the method the callback calls, and the callback raises.

  C1. The update event below changes \<^verbatim>\<open>status\<close> to \<^verbatim>\<open>done\<close> and a field named
  \<^verbatim>\<open>hasOwnProperty\<close>. Its one filter, \<^verbatim>\<open>status\<close> equal to \<^verbatim>\<open>done\<close>, is satisfied:
  the field is present in the changed fields with exactly that string. The handler
  raises a \<^verbatim>\<open>TypeError\<close> and emits nothing.
\<close>

theorem filters_met_not_emitted:
  "operationType (sample_event ''update'' (Some (TimeValue 0))
       [(''status'', BStr ''done''), (''hasOwnProperty'', BStr ''x'')]) = ''update''
   \<and> map_of (updatedFields_of (sample_event ''update'' (Some (TimeValue 0))
       [(''status'', BStr ''done''), (''hasOwnProperty'', BStr ''x'')])) ''status'' = Some (BStr ''done'')
   \<and> on_change sample_render 0 ''db0'' ''c0'' [sample_filter ''equal'']
       (sample_event ''update'' (Some (TimeValue 0))
          [(''status'', BStr ''done''), (''hasOwnProperty'', BStr ''x'')]) =
     Inl (TypeError ''updatedFields.hasOwnProperty is not a function'')"
  by (simp add: on_change_formatted [OF sample_formatted] condition_met_def hasOwnProperty_def
      sample_filter_def) (simp add: sample_event_def updatedFields_of_def)

text \<open>
  C10. The update event below changes a field named \<^verbatim>\<open>hasOwnProperty\<close>; the one
  filter has the operator \<^verbatim>\<open>greaterThan\<close>, which is neither \<^verbatim>\<open>equal\<close> nor
  \<^verbatim>\<open>notEqual\<close>. The condition is not evaluated to false: the callback raises
  a \<^verbatim>\<open>TypeError\<close> before it reaches the switch on the operator, and the error leaves
  the handler.
\<close>

theorem unknown_operator_raises:
  "operator (sample_filter ''greaterThan'') \<noteq> ''equal''
   \<and> operator (sample_filter ''greaterThan'') \<noteq> ''notEqual''
   \<and> on_change sample_render 0 ''db0'' ''c0'' [sample_filter ''greaterThan'']
       (sample_event ''update'' (Some (TimeValue 0)) [(''hasOwnProperty'', BNum ''1'')]) =
     Inl (TypeError ''updatedFields.hasOwnProperty is not a function'')"
  by (simp add: on_change_formatted [OF sample_formatted] condition_met_def hasOwnProperty_def
      sample_filter_def) (simp add: sample_event_def updatedFields_of_def)

section \<open>Normalization\<close>

text \<open>
  C4. The insert event below has a valid wall-clock time and, as its \<^verbatim>\<open>_id\<close>, an
  embedded document with a field named \<^verbatim>\<open>toString\<close>. \<^verbatim>\<open>formatChangeOutput\<close> returns
  no output for it: the call \<^verbatim>\<open>_id?.toString()\<close> finds the field in place of the
  method and raises a \<^verbatim>\<open>TypeError\<close>.
\<close>

theorem formatChangeOutput_raises:
  "formatChangeOutput sample_render 0 ''db0'' ''c0''
     (sample_insert (BDoc [(''toString'', BStr ''x'')])) =
   Inl (TypeError ''toString is not a function'')"
  by (simp add: formatChangeOutput_def documentId_of_def js_toString_def sample_insert_def)



section \<open>Failures while handling an event\<close>

text \<open>
  C8, as the claim states it, fails: the handler has no \<^verbatim>\<open>try\<close>. The update event
  below changes a field named \<^verbatim>\<open>hasOwnProperty\<close>, so the filter path fails on it;
  the event is not dropped by a handler that returns normally: the handler raises the
  error to the driver that called it, and records nothing.
\<close>

theorem on_change_counterexample:
  "on_change sample_render 0 ''db0'' ''c0'' [sample_filter ''notEqual'']
     (sample_event ''update'' (Some (TimeValue 0))
        [(''hasOwnProperty'', BBool True), (''status'', BStr ''pending'')])
   = Inl (TypeError ''updatedFields.hasOwnProperty is not a function'')"
  by (simp add: on_change_formatted [OF sample_formatted] condition_met_def hasOwnProperty_def
      sample_filter_def) (simp add: sample_event_def updatedFields_of_def)

text \<open>
  C8, amended. A failure inside the normalization or the filtering of an event is not
  caught by the handler: whatever \<^verbatim>\<open>formatChangeOutput\<close> raises, and whatever the
  evaluation of the filters raises on a normalized update event, is the result of the
  handler, which then has emitted nothing and noted no cause.
\<close>

theorem on_change_failure_propagates:
  "(formatChangeOutput render now database' collectionName change = Inl e \<longrightarrow>
      on_change render now database' collectionName filters change = Inl e)
   \<and> (formatChangeOutput render now database' collectionName change = Inr out \<longrightarrow>
      filters \<noteq> [] \<longrightarrow> operationType change = ''update'' \<longrightarrow>
      every_condition (updatedFields_of change) filters = Inl e \<longrightarrow>
      on_change render now database' collectionName filters change = Inl e)"
  by (simp add: on_change_raises on_change_formatted)

theorem on_change_failure_propagates_witness:
  "on_change sample_render 0 ''db0'' ''c0'' [sample_filter ''equal'']
     (sample_insert (BDoc [(''toString'', BNum ''1'')])) = Inl (TypeError ''toString is not a function'')
   \<and> on_change sample_render 0 ''db0'' ''c0'' [sample_filter ''equal'']
     (sample_event ''update'' (Some (TimeValue 0)) [(''hasOwnProperty'', BNull)]) =
       Inl (TypeError ''updatedFields.hasOwnProperty is not a function'')"
proof -
  have n: "formatChangeOutput sample_render 0 ''db0'' ''c0''
             (sample_insert (BDoc [(''toString'', BNum ''1'')])) =
           Inl (TypeError ''toString is not a function'')"
    by (simp add: formatChangeOutput_def documentId_of_def js_toString_def sample_insert_def)
  have f: "[sample_filter ''equal''] \<noteq> []" by simp
  have u: "operationType (sample_event ''update'' (Some (TimeValue 0)) [(''hasOwnProperty'', BNull)]) = ''update''"
    by (simp add: sample_event_def)
  have c: "every_condition (updatedFields_of (sample_event ''update'' (Some (TimeValue 0))
               [(''hasOwnProperty'', BNull)])) [sample_filter ''equal''] =
           Inl (TypeError ''updatedFields.hasOwnProperty is not a function'')"
    by (simp add: condition_met_def hasOwnProperty_def sample_event_def updatedFields_of_def)
  show ?thesis
    using on_change_failure_propagates [of sample_render 0 "''db0''" "''c0''"
        "sample_insert (BDoc [(''toString'', BNum ''1'')])" "TypeError ''toString is not a function''"
        "[sample_filter ''equal'']"] n
      on_change_failure_propagates [THEN conjunct2, rule_format, OF sample_formatted f u c]
    by simp
qed

section \<open>The pipeline builder\<close>

subsection \<open>Paths and stages: basic facts\<close>

lemma split_dot_nodot: "CHR ''.'' \<notin> set f \<Longrightarrow> split_dot f = [f]"
  by (induction f) auto

lemma split_dot_append:
  "CHR ''.'' \<notin> set xs \<Longrightarrow> split_dot (xs @ CHR ''.'' # ys) = xs # split_dot ys"
  by (induction xs) auto

lemma split_dot_operationType: "split_dot ''operationType'' = [''operationType'']"
  by (simp add: split_dot_nodot)

lemma split_dot_updatedFields:
  "split_dot ''updateDescription.updatedFields'' = [''updateDescription'', ''updatedFields'']"
  using split_dot_append [of "''updateDescription''" "''updatedFields''"]
  by (simp add: split_dot_nodot)

lemma split_dot_field:
  "split_dot (''updateDescription.updatedFields.'' @ f) =
     ''updateDescription'' # ''updatedFields'' # split_dot f"
  using split_dot_append [of "''updateDescription''" "''updatedFields'' @ CHR ''.'' # f"]
    split_dot_append [of "''updatedFields''" f]
  by simp

lemma lookup_operationType:
  "lookup_path [''operationType''] (event_document change) = Some (BStr (operationType change))"
  by (simp add: event_document_def)

lemma lookup_updatedFields:
  "lookup_path (''updateDescription'' # ''updatedFields'' # ks) (event_document change) =
     (case Option.bind (updateDescription change) updatedFields of
        None \<Rightarrow> None | Some d \<Rightarrow> lookup_path ks (BDoc d))"
  by (simp add: event_document_def split: option.splits)

lemma operation_stage_passes:
  "stage_passes (operation_stage operationTypes) change \<longleftrightarrow>
     operationType change \<in> set operationTypes"
  by (simp add: operation_stage_def split_dot_operationType lookup_operationType)

lemma field_stage_passes:
  "stage_passes (field_stage fields') change \<longleftrightarrow>
     operationType change \<noteq> ''update'' \<or>
     (\<exists>d. Option.bind (updateDescription change) updatedFields = Some d \<and>
        (\<exists>f \<in> set (fieldList_of fields'). lookup_path (split_dot f) (BDoc d) \<noteq> None))"
  by (auto simp: field_stage_def split_dot_operationType lookup_operationType
      split_dot_updatedFields split_dot_field lookup_updatedFields list_ex_iff
      split: option.splits)

lemma buildPipeline_split:
  "buildPipeline fields' operationTypes =
     buildPipeline ''*'' operationTypes
     @ (if fields' \<noteq> ''*'' \<and> ''update'' \<in> set operationTypes then [field_stage fields'] else [])"
  by (simp add: buildPipeline_def)

lemma no_field_stage_wildcard:
  "field_stage g \<notin> set (buildPipeline ''*'' operationTypes)"
  by (simp add: buildPipeline_def field_stage_def operation_stage_def)

lemma no_operation_stage_field: "operation_stage ops \<noteq> field_stage g"
  by (simp add: field_stage_def operation_stage_def)

lemma card_supported: "card (set supported_operations) = 6"
  by (simp add: supported_operations_def)

lemma length_selected:
  assumes "distinct operationTypes" and "set operationTypes \<subseteq> set supported_operations"
  shows "length operationTypes < 6 \<longleftrightarrow> set operationTypes \<noteq> set supported_operations"
proof -
  have len: "length operationTypes = card (set operationTypes)"
    using assms(1) by (simp add: distinct_card)
  show ?thesis
  proof
    assume "length operationTypes < 6"
    with len card_supported show "set operationTypes \<noteq> set supported_operations" by auto
  next
    assume "set operationTypes \<noteq> set supported_operations"
    with assms(2) have "set operationTypes \<subset> set supported_operations" by auto
    then have "card (set operationTypes) < card (set supported_operations)"
      by (intro psubset_card_mono) auto
    with len card_supported show "length operationTypes < 6" by simp
  qed
qed

subsection \<open>The operation-type stage\<close>

text \<open>
  C3. The selected operation types are a list without repetitions of supported types
  (what the multi-option parameter delivers). If the selection is non-empty and not all
  six types, the pipeline starts with the stage restricting events to the selection,
  which is the only operation-type stage and passes an event iff its operation type is
  selected; if the selection is all six types, the pipeline has no operation-type stage.
\<close>

theorem operation_stage_rule:
  assumes "distinct operationTypes" and "set operationTypes \<subseteq> set supported_operations"
  shows "(operationTypes \<noteq> [] \<and> set operationTypes \<noteq> set supported_operations \<longrightarrow>
            (\<exists>rest. buildPipeline fields' operationTypes = operation_stage operationTypes # rest
                    \<and> (\<forall>ops. operation_stage ops \<notin> set rest))
            \<and> (\<forall>change. stage_passes (operation_stage operationTypes) change \<longleftrightarrow>
                          operationType change \<in> set operationTypes))
       \<and> (set operationTypes = set supported_operations \<longrightarrow>
            (\<forall>ops. operation_stage ops \<notin> set (buildPipeline fields' operationTypes)))"
proof (intro conjI impI)
  assume a: "operationTypes \<noteq> [] \<and> set operationTypes \<noteq> set supported_operations"
  then have "length operationTypes > 0 \<and> length operationTypes < 6"
    using length_selected [OF assms] by simp
  then show "\<exists>rest. buildPipeline fields' operationTypes = operation_stage operationTypes # rest
                    \<and> (\<forall>ops. operation_stage ops \<notin> set rest)"
    by (simp add: buildPipeline_def no_operation_stage_field)
  show "\<forall>change. stage_passes (operation_stage operationTypes) change \<longleftrightarrow>
                          operationType change \<in> set operationTypes"
    by (simp add: operation_stage_passes)
next
  assume "set operationTypes = set supported_operations"
  then have "\<not> length operationTypes < 6"
    using length_selected [OF assms] by simp
  then show "\<forall>ops. operation_stage ops \<notin> set (buildPipeline fields' operationTypes)"
    by (simp add: buildPipeline_def no_operation_stage_field)
qed

theorem operation_stage_rule_witness:
  "buildPipeline ''*'' [''insert'', ''delete''] = [operation_stage [''insert'', ''delete'']]
   \<and> stage_passes (operation_stage [''insert'', ''delete'']) (sample_event ''delete'' None [])
   \<and> \<not> stage_passes (operation_stage [''insert'', ''delete'']) (sample_event ''update'' None [])
   \<and> (\<forall>ops. operation_stage ops \<notin> set (buildPipeline ''a'' supported_operations))"
proof -
  have d: "distinct [''insert'', ''delete'']" by simp
  have s: "set [''insert'', ''delete''] \<subseteq> set supported_operations"
    by (simp add: supported_operations_def)
  have "''update'' \<in> set supported_operations" "''update'' \<notin> set [''insert'', ''delete'']"
    by (simp_all add: supported_operations_def)
  then have n: "[''insert'', ''delete''] \<noteq> [] \<and> set [''insert'', ''delete''] \<noteq> set supported_operations"
    by (metis list.distinct(1))
  have d6: "distinct supported_operations" by (simp add: supported_operations_def)
  show ?thesis
    using operation_stage_rule [OF d s, of "''*''"] n
      operation_stage_rule [OF d6 subset_refl, of "''a''"]
    by (simp add: buildPipeline_def sample_event_def)
qed

subsection \<open>The field stage\<close>

lemma field_stage_plain_names:
  assumes "\<forall>f \<in> set (fieldList_of fields'). f \<noteq> [] \<and> CHR ''.'' \<notin> set f"
    and "operationType change = ''update''"
  shows "stage_passes (field_stage fields') change \<longleftrightarrow>
           (\<exists>f \<in> set (fieldList_of fields'). map_of (updatedFields_of change) f \<noteq> None)"
proof (cases "Option.bind (updateDescription change) updatedFields")
  case None
  then show ?thesis
    by (simp add: field_stage_passes assms(2) updatedFields_of_def)
next
  case (Some d)
  have "\<forall>f \<in> set (fieldList_of fields').
          lookup_path (split_dot f) (BDoc d) \<noteq> None \<longleftrightarrow> map_of d f \<noteq> None"
    using assms(1) by (auto simp: split_dot_nodot split: option.splits)
  then show ?thesis
    using Some by (simp add: field_stage_passes assms(2) updatedFields_of_def del: not_None_eq)
qed

lemma fieldList_of_dotted: "fieldList_of ''a.b'' = [''a.b'']"
  by (simp add: fieldList_of_def trim_def strip_leading.simps leading_space_def white_space_def)

text \<open>
  C2. With \<open>fields' = a.b\<close> and \<^verbatim>\<open>update\<close> selected, the field stage is in the
  pipeline and \<^verbatim>\<open>a.b\<close> is the one monitored name. The update event below changes the
  field \<^verbatim>\<open>a.b\<close>: its changed-fields map has the key \<^verbatim>\<open>a.b\<close>. The stage does not
  pass the event, because it asks for the path
  \<^verbatim>\<open>updateDescription.updatedFields.a.b\<close>, which the server follows into a nested
  document \<^verbatim>\<open>a\<close> that is not there.
\<close>

theorem dotted_field_not_matched:
  "field_stage ''a.b'' \<in> set (buildPipeline ''a.b'' [''update''])
   \<and> operationType sample_nested = ''update''
   \<and> fieldList_of ''a.b'' = [''a.b'']
   \<and> map_of (updatedFields_of sample_nested) ''a.b'' = Some (BNum ''1'')
   \<and> \<not> stage_passes (field_stage ''a.b'') sample_nested"
  by (simp add: buildPipeline_def fieldList_of_dotted field_stage_passes
      sample_nested_def sample_event_def updatedFields_of_def)

section \<open>Start-up\<close>

subsection \<open>Basic facts\<close>

lemma trigger_started:
  assumes "credentials env = Some uri" and "connect_result env = None"
    and "validate passthrough env (param_database params) (param_collection params) = None"
  shows "trigger passthrough env params =
           (Inr \<lparr> stream_pipeline = buildPipeline (param_fields params) (param_operationTypes params) \<rparr>,
            Connect uri
            # validate_calls env (param_database params) (param_collection params)
            @ [Watch (param_database params) (param_collection params)
                 (buildPipeline (param_fields params) (param_operationTypes params))])"
  using assms by (simp add: trigger_def Let_def)

lemma validate_calls_no_watch: "\<not> subscription_created (validate_calls env d c)"
  by (simp add: subscription_created_def validate_calls_def split: option.splits)

lemma subscription_created_append [simp]:
  "subscription_created (xs @ ys) \<longleftrightarrow> subscription_created xs \<or> subscription_created ys"
  by (simp add: subscription_created_def)

lemma subscription_created_Cons:
  "subscription_created (x # xs) \<longleftrightarrow>
     (case x of Watch d c p \<Rightarrow> True | _ \<Rightarrow> False) \<or> subscription_created xs"
  by (simp add: subscription_created_def)

lemma sample_validate: "validate passthrough (sample_env [''orders'']) ''d'' ''orders'' = None"
  by (simp add: validate_def verify_database_def verify_collection_def sample_env_def)

lemma verify_collection_not_found:
  assumes "listCollections_result env = Inr []"
    and "\<not> str_includes (''Collection '' @ quoted c @ '' does not exist in database ''
               @ quoted d @ ''.'') ''not authorized''"
  shows "verify_collection passthrough env d c =
           Some (if passthrough
                 then NodeApiError (''Collection '' @ quoted c @ '' does not exist in database ''
                        @ quoted d @ ''.'')
                 else NodeApiError (''Failed to verify if collection '' @ quoted c @ '' exists.''))"
  using assms by (simp add: verify_collection_def is_unauthorized_def wrap_error_def)

subsection \<open>A collection that does not exist\<close>

text \<open>
  C6. The error for a collection that does not exist is thrown inside the \<^verbatim>\<open>try\<close>
  block whose \<^verbatim>\<open>catch\<close> looks for \<^verbatim>\<open>not authorized\<close> in the message of what it
  caught; the message quotes the names of the collection and the database. For the
  collection named \<^verbatim>\<open>not authorized\<close>, with the database reachable and no collection
  matching, start-up fails with the error for missing permissions, whose message names
  the database only, whichever way the host's constructor treats a
  \<^verbatim>\<open>NodeApiError\<close>. No subscription is opened.
\<close>

theorem not_found_reported_as_unauthorized:
  "\<forall>passthrough.
     trigger passthrough (sample_env []) (sample_params ''not authorized'' [''update'']) =
       (Inl (NodeApiError (''Not authorized to list collections in '' @ quoted ''d''
               @ ''. Check if your credentials have sufficient permissions.'')),
        [Connect ''mongodb://localhost:27017'', Ping ''d'', ListCollections ''d'' ''not authorized''])
   \<and> \<not> str_includes (''Not authorized to list collections in '' @ quoted ''d''
               @ ''. Check if your credentials have sufficient permissions.'') ''not authorized''"
  by (simp add: trigger_def validate_def verify_database_def verify_collection_def
      is_unauthorized_def validate_calls_def sample_env_def sample_params_def quoted_def)

subsection \<open>An empty selection of operation types\<close>

text \<open>
  C9, as the claim states it, fails: with no operation type selected and the database
  and collection in place, \<^verbatim>\<open>trigger\<close> raises nothing and opens the change stream.
\<close>

theorem empty_operationTypes_counterexample:
  "trigger True (sample_env [''orders'']) (sample_params ''orders'' []) =
     (Inr \<lparr> stream_pipeline = [] \<rparr>,
      [Connect ''mongodb://localhost:27017'', Ping ''d'', ListCollections ''d'' ''orders'',
       Watch ''d'' ''orders'' []])"
  by (simp add: trigger_def validate_def verify_database_def verify_collection_def
      validate_calls_def buildPipeline_def sample_env_def sample_params_def)

text \<open>
  C9, amended. For every configuration whose operation-type selection is empty,
  start-up does not fail on that account: when the credentials, the connection and the
  validation succeed, \<^verbatim>\<open>trigger\<close> opens the change stream, with the empty pipeline (the
  guard \<^verbatim>\<open>operationTypes.length > 0\<close> skips the operation-type stage, and no field
  stage is added since \<^verbatim>\<open>update\<close> is not selected).
\<close>

theorem empty_operationTypes_starts:
  assumes "credentials env = Some uri" and "connect_result env = None"
    and "validate passthrough env (param_database params) (param_collection params) = None"
    and "param_operationTypes params = []"
  shows "\<exists>calls. trigger passthrough env params = (Inr \<lparr> stream_pipeline = [] \<rparr>, calls)
           \<and> subscription_created calls"
  using assms(4)
  by (simp add: trigger_started [OF assms(1-3)] buildPipeline_def subscription_created_Cons)

theorem empty_operationTypes_starts_witness:
  "\<exists>calls. trigger False (sample_env [''orders'']) (sample_params ''orders'' []) =
             (Inr \<lparr> stream_pipeline = [] \<rparr>, calls) \<and> subscription_created calls"
proof -
  have c: "credentials (sample_env [''orders'']) = Some ''mongodb://localhost:27017''"
    and n: "connect_result (sample_env [''orders'']) = None"
    by (simp_all add: sample_env_def)
  have v: "validate False (sample_env [''orders'']) (param_database (sample_params ''orders'' []))
             (param_collection (sample_params ''orders'' [])) = None"
    by (simp add: sample_validate sample_params_def)
  have e: "param_operationTypes (sample_params ''orders'' []) = []"
    by (simp add: sample_params_def)
  show ?thesis
    by (rule empty_operationTypes_starts [OF c n v e])
qed

section \<open>Shutdown: order and failure\<close>

text \<open>
  C7, as the claim states it, fails: when closing the change stream fails, the
  function is left at the first \<^verbatim>\<open>await\<close> and the connection is never closed.
\<close>

theorem closeFunction_counterexample:
  "closeFunction failing_close quiet_close sample_handles =
     (Some (DriverError (Some ''connection lost'') None), sample_handles, [CloseStream])"
  by (simp add: closeFunction_def failing_close_def sample_handles_def)

text \<open>
  C7, amended. The teardown handle closes the change stream first. If that succeeds it
  then closes the connection; if it fails, the failure is the result of the handle, the
  close of the connection is not attempted and the handles are as before. After an
  invocation without error, and with close operations of the driver that do not fail on
  a handle already closed, a second invocation makes the same two calls and produces
  no error either.
\<close>

theorem closeFunction_order:
  "(case closeFunction stream_close client_close h of
      (result, h', calls) \<Rightarrow>
        (stream_close h = None \<longrightarrow> calls = [CloseStream, CloseClient])
        \<and> (stream_close h \<noteq> None \<longrightarrow>
              calls = [CloseStream] \<and> result = stream_close h \<and> h' = h)
        \<and> (result = None \<longrightarrow>
              (\<forall>s. stream_closed s \<longrightarrow> stream_close s = None) \<longrightarrow>
              (\<forall>s. client_closed s \<longrightarrow> client_close s = None) \<longrightarrow>
              closeFunction stream_close client_close h' =
                (None, h', [CloseStream, CloseClient])))"
  by (auto simp: closeFunction_def Let_def split: option.splits)

theorem closeFunction_order_witness:
  "closeFunction failing_close quiet_close sample_handles =
     (failing_close sample_handles, sample_handles, [CloseStream])
   \<and> closeFunction quiet_close quiet_close sample_handles =
     (None, \<lparr> stream_closed = True, client_closed = True \<rparr>, [CloseStream, CloseClient])
   \<and> closeFunction quiet_close quiet_close \<lparr> stream_closed = True, client_closed = True \<rparr> =
     (None, \<lparr> stream_closed = True, client_closed = True \<rparr>, [CloseStream, CloseClient])"
  using closeFunction_order [where stream_close = quiet_close and client_close = quiet_close
      and h = sample_handles]
    closeFunction_order [where stream_close = failing_close and client_close = quiet_close
      and h = sample_handles]
  by (simp add: closeFunction_def quiet_close_def failing_close_def sample_handles_def)

end
